theory Spec2Isabelle
  imports Main "HOL-Library.AList" "HOL-Library.Multiset" "HOL-Library.Char_ord"
    "HOL-Library.List_Lexorder"
begin

section \<open>Python values\<close>

text \<open>
  The script keeps its campaign state, credentials, messages and recipients as the values
  that \<^verbatim>\<open>json.load\<close> returns, and tests them dynamically. The values are
  modelled as they are: \<open>JNull\<close> is Python's \<^verbatim>\<open>None\<close>, a dictionary is an
  association list in insertion order with unique keys. JSON numbers with a fraction or an
  exponent (Python floats) are outside the model.
\<close>

datatype json =
    JNull
  | JBool bool
  | JInt int
  | JStr string
  | JList "json list"
  | JDict "(string \<times> json) list"

datatype py_error = KeyError | TypeError | ValueError | AttributeError | IndexError

text \<open>Python's truth test (\<^verbatim>\<open>if not x\<close>).\<close>

fun truthy :: "json \<Rightarrow> bool" where
  "truthy JNull = False"
| "truthy (JBool b) = b"
| "truthy (JInt n) = (n \<noteq> 0)"
| "truthy (JStr s) = (s \<noteq> [])"
| "truthy (JList xs) = (xs \<noteq> [])"
| "truthy (JDict d) = (d \<noteq> [])"

text \<open>\<^verbatim>\<open>obj[key]\<close> with a string key: only a dictionary can be subscripted so.\<close>

fun subscript :: "json \<Rightarrow> string \<Rightarrow> py_error + json" where
  "subscript (JDict d) k = (case map_of d k of None \<Rightarrow> Inl KeyError | Some v \<Rightarrow> Inr v)"
| "subscript _ k = Inl TypeError"

text \<open>\<^verbatim>\<open>obj.get(key, default)\<close>: only a dictionary has the method.\<close>

fun dict_get :: "json \<Rightarrow> string \<Rightarrow> json \<Rightarrow> py_error + json" where
  "dict_get (JDict d) k dflt = (case map_of d k of None \<Rightarrow> Inr dflt | Some v \<Rightarrow> Inr v)"
| "dict_get _ k dflt = Inl AttributeError"

text \<open>\<^verbatim>\<open>obj[key] = v\<close>: the entry is replaced in place, or appended.\<close>

fun store :: "json \<Rightarrow> string \<Rightarrow> json \<Rightarrow> py_error + json" where
  "store (JDict d) k v = Inr (JDict (AList.update k v d))"
| "store _ k v = Inl TypeError"

text \<open>An operand of integer arithmetic: \<^verbatim>\<open>bool\<close> is a subclass of \<^verbatim>\<open>int\<close>.\<close>

fun as_int :: "json \<Rightarrow> py_error + int" where
  "as_int (JInt n) = Inr n"
| "as_int (JBool b) = Inr (if b then 1 else 0)"
| "as_int _ = Inl TypeError"

section \<open>Dates\<close>

text \<open>
  A naive \<^verbatim>\<open>datetime\<close>, with the fields Python stores. \<open>dt_valid\<close> is the
  range check of its constructor.
\<close>

record datetime =
  year :: nat
  month :: nat
  day :: nat
  hour :: nat
  minute :: nat
  second :: nat
  microsecond :: nat

definition is_leap :: "nat \<Rightarrow> bool" where
  "is_leap y = (y mod 4 = 0 \<and> (y mod 100 \<noteq> 0 \<or> y mod 400 = 0))"

definition days_in_month :: "nat \<Rightarrow> nat \<Rightarrow> nat" where
  "days_in_month y m =
     (if m = 2 then (if is_leap y then 29 else 28)
      else if m = 4 \<or> m = 6 \<or> m = 9 \<or> m = 11 then 30 else 31)"

definition date_valid :: "nat \<Rightarrow> nat \<Rightarrow> nat \<Rightarrow> bool" where
  "date_valid y m d =
     (1 \<le> y \<and> y \<le> 9999 \<and> 1 \<le> m \<and> m \<le> 12 \<and> 1 \<le> d \<and> d \<le> days_in_month y m)"

definition dt_valid :: "datetime \<Rightarrow> bool" where
  "dt_valid t =
     (date_valid (year t) (month t) (day t) \<and> hour t < 24 \<and> minute t < 60 \<and>
      second t < 60 \<and> microsecond t < 1000000)"

definition days_before_year :: "nat \<Rightarrow> int" where
  "days_before_year y =
     (let p = int y - 1 in p * 365 + p div 4 - p div 100 + p div 400)"

definition days_before_month :: "nat \<Rightarrow> nat \<Rightarrow> int" where
  "days_before_month y m = (\<Sum>k \<leftarrow> [1..<m]. int (days_in_month y k))"

text \<open>\<^verbatim>\<open>toordinal()\<close>: day 1 is 0001-01-01.\<close>

definition toordinal :: "datetime \<Rightarrow> int" where
  "toordinal t = days_before_year (year t) + days_before_month (year t) (month t) + int (day t)"

definition us_of_day :: "datetime \<Rightarrow> int" where
  "us_of_day t =
     (int (hour t) * 3600 + int (minute t) * 60 + int (second t)) * 1000000 + int (microsecond t)"

text \<open>
  \<^verbatim>\<open>(a - b).days\<close>: a \<^verbatim>\<open>timedelta\<close> is normalised so that its seconds and
  microseconds are not negative, hence the days are the floor of the difference.
\<close>

definition delta_days :: "datetime \<Rightarrow> datetime \<Rightarrow> int" where
  "delta_days a b =
     ((toordinal a - toordinal b) * 86400000000 + (us_of_day a - us_of_day b)) div 86400000000"

subsection \<open>The format \<^verbatim>\<open>%Y-%m-%d\<close>\<close>

definition is_digit :: "char \<Rightarrow> bool" where
  "is_digit c = (48 \<le> (of_char c :: nat) \<and> (of_char c :: nat) \<le> 57)"

definition digit_val :: "char \<Rightarrow> nat" where
  "digit_val c = of_char c - 48"

definition digit_char :: "nat \<Rightarrow> char" where
  "digit_char n = char_of (48 + n)"

definition pad2 :: "nat \<Rightarrow> string" where
  "pad2 n = [digit_char (n div 10 mod 10), digit_char (n mod 10)]"

definition pad4 :: "nat \<Rightarrow> string" where
  "pad4 n = [digit_char (n div 1000 mod 10), digit_char (n div 100 mod 10),
             digit_char (n div 10 mod 10), digit_char (n mod 10)]"

text \<open>\<^verbatim>\<open>t.strftime('%Y-%m-%d')\<close>, for a year of four digits.\<close>

definition strftime :: "datetime \<Rightarrow> string" where
  "strftime t = pad4 (year t) @ ''-'' @ pad2 (month t) @ ''-'' @ pad2 (day t)"

text \<open>
  \<^verbatim>\<open>datetime.strptime(s, '%Y-%m-%d')\<close> matches \<open>s\<close> against
  \<^verbatim>\<open>(\d\d\d\d)-(1[0-2]|0[1-9]|[1-9])-(3[01]|[12]\d|0[1-9]|[1-9]| [1-9])\<close>, refuses
  text left over, and then builds the date, which checks the ranges. Every failure is a
  \<^verbatim>\<open>ValueError\<close>. Digits are the ASCII ones.
\<close>

definition nonzero_digit :: "char \<Rightarrow> bool" where
  "nonzero_digit c = (is_digit c \<and> c \<noteq> CHR ''0'')"

fun parse_month :: "string \<Rightarrow> (nat \<times> string) option" where
  "parse_month (a # b # rest) =
     (if a = CHR ''1'' \<and> (b = CHR ''0'' \<or> b = CHR ''1'' \<or> b = CHR ''2'')
        then Some (10 + digit_val b, rest)
      else if a = CHR ''0'' \<and> nonzero_digit b then Some (digit_val b, rest)
      else if nonzero_digit a then Some (digit_val a, b # rest)
      else None)"
| "parse_month [a] = (if nonzero_digit a then Some (digit_val a, []) else None)"
| "parse_month [] = None"

fun parse_day :: "string \<Rightarrow> (nat \<times> string) option" where
  "parse_day (a # b # rest) =
     (if a = CHR ''3'' \<and> (b = CHR ''0'' \<or> b = CHR ''1'') then Some (30 + digit_val b, rest)
      else if (a = CHR ''1'' \<or> a = CHR ''2'') \<and> is_digit b
        then Some (10 * digit_val a + digit_val b, rest)
      else if a = CHR ''0'' \<and> nonzero_digit b then Some (digit_val b, rest)
      else if nonzero_digit a then Some (digit_val a, b # rest)
      else if a = CHR '' '' \<and> nonzero_digit b then Some (digit_val b, rest)
      else None)"
| "parse_day [a] = (if nonzero_digit a then Some (digit_val a, []) else None)"
| "parse_day [] = None"

fun parse_year :: "string \<Rightarrow> (nat \<times> string) option" where
  "parse_year (a # b # c # d # rest) =
     (if is_digit a \<and> is_digit b \<and> is_digit c \<and> is_digit d
        then Some (1000 * digit_val a + 100 * digit_val b + 10 * digit_val c + digit_val d, rest)
      else None)"
| "parse_year _ = None"

fun expect_dash :: "string \<Rightarrow> string option" where
  "expect_dash (c # rest) = (if c = CHR ''-'' then Some rest else None)"
| "expect_dash [] = None"

definition parse_ymd :: "string \<Rightarrow> (nat \<times> nat \<times> nat) option" where
  "parse_ymd s =
     (case parse_year s of None \<Rightarrow> None | Some (y, r1) \<Rightarrow>
     (case expect_dash r1 of None \<Rightarrow> None | Some r2 \<Rightarrow>
     (case parse_month r2 of None \<Rightarrow> None | Some (m, r3) \<Rightarrow>
     (case expect_dash r3 of None \<Rightarrow> None | Some r4 \<Rightarrow>
     (case parse_day r4 of None \<Rightarrow> None | Some (d, r5) \<Rightarrow>
        if r5 = [] then Some (y, m, d) else None)))))"

definition midnight :: "nat \<Rightarrow> nat \<Rightarrow> nat \<Rightarrow> datetime" where
  "midnight y m d =
     \<lparr>year = y, month = m, day = d, hour = 0, minute = 0, second = 0, microsecond = 0\<rparr>"

definition strptime_str :: "string \<Rightarrow> py_error + datetime" where
  "strptime_str s =
     (case parse_ymd s of
        None \<Rightarrow> Inl ValueError
      | Some (y, m, d) \<Rightarrow> if date_valid y m d then Inr (midnight y m d) else Inl ValueError)"

text \<open>The first argument of \<^verbatim>\<open>strptime\<close> must be a string.\<close>

fun strptime :: "json \<Rightarrow> py_error + datetime" where
  "strptime (JStr s) = strptime_str s"
| "strptime _ = Inl TypeError"

section \<open>The quota of the day\<close>

text \<open>
  \<^verbatim>\<open>get_current_day_info(history)\<close>. The clock is the argument \<open>now\<close>, the
  value of \<^verbatim>\<open>datetime.now()\<close>. The function changes \<open>history\<close> in place on a first
  run; the model returns the dictionary as the function leaves it, next to the triple
  \<open>(day_number, emails_to_send, today)\<close>.
\<close>

definition get_current_day_info ::
  "datetime \<Rightarrow> json \<Rightarrow> py_error + ((int \<times> int \<times> string) \<times> json)" where
  "get_current_day_info now history =
     (let today = strftime now in
      case subscript history ''start_date'' of Inl e \<Rightarrow> Inl e | Inr sd \<Rightarrow>
     (case (if \<not> truthy sd
            then (case store history ''start_date'' (JStr today) of
                    Inl e \<Rightarrow> Inl e | Inr h \<Rightarrow> Inr (1, h))
            else (case strptime sd of Inl e \<Rightarrow> Inl e | Inr start_date \<Rightarrow>
                 (case strptime (JStr today) of Inl e \<Rightarrow> Inl e | Inr current_date \<Rightarrow>
                    Inr (delta_days current_date start_date + 1, history))))
      of Inl e \<Rightarrow> Inl e | Inr (day_number, history') \<Rightarrow>
     (case subscript history' ''daily_sends'' of Inl e \<Rightarrow> Inl e | Inr sends \<Rightarrow>
     (case dict_get sends today (JInt 0) of Inl e \<Rightarrow> Inl e | Inr sent \<Rightarrow>
     (case as_int sent of Inl e \<Rightarrow> Inl e | Inr emails_sent_today \<Rightarrow>
        Inr ((day_number, max 0 (day_number - emails_sent_today), today), history'))))))"

text \<open>
  What \<^verbatim>\<open>datetime.now()\<close> can return: a valid time whose year has four digits.
\<close>

definition clock_valid :: "datetime \<Rightarrow> bool" where
  "clock_valid now = (dt_valid now \<and> 1000 \<le> year now)"

section \<open>The durable record\<close>

text \<open>
  A file as the script meets it: it does not exist; it exists and \<^verbatim>\<open>open\<close> raises;
  it opens and \<^verbatim>\<open>json.load\<close> raises on its text (the empty file is such a text);
  or its text decodes to a value.
\<close>

datatype disk_file = Absent | Unreadable | Undecodable | Document json

definition fresh_history :: json where
  "fresh_history = JDict [(''start_date'', JNull), (''daily_sends'', JDict [])]"

text \<open>\<^verbatim>\<open>load_history()\<close>: every exception of opening and decoding is passed over.\<close>

fun load_history :: "disk_file \<Rightarrow> json" where
  "load_history Absent = fresh_history"
| "load_history Unreadable = fresh_history"
| "load_history Undecodable = fresh_history"
| "load_history (Document j) = j"

text \<open>
  \<^verbatim>\<open>save_history(history)\<close> opens \<^verbatim>\<open>history.json\<close> in mode \<^verbatim>\<open>'w'\<close>, which
  truncates it, and dumps the value into it. \<open>save_history_steps\<close> lists the contents the
  file has in turn: empty after the truncation, the document once the dump is written out.
  \<open>save_history\<close> is the content the call leaves. The file system is taken to accept the
  write.
\<close>

definition save_history_steps :: "json \<Rightarrow> disk_file list" where
  "save_history_steps history = [Undecodable, Document history]"

definition save_history :: "json \<Rightarrow> disk_file" where
  "save_history history = last (save_history_steps history)"

text \<open>
  \<^verbatim>\<open>update_history(history, date, count)\<close>, with \<open>cnt\<close> for its
  \<^verbatim>\<open>count\<close>. The inner dictionary is changed in place; the model stores it back
  into \<open>history\<close>. The result is the dictionary and the file.
\<close>

definition update_history :: "json \<Rightarrow> string \<Rightarrow> int \<Rightarrow> py_error + (json \<times> disk_file)" where
  "update_history history date cnt =
     (case subscript history ''daily_sends'' of Inl e \<Rightarrow> Inl e | Inr sends \<Rightarrow>
     (case dict_get sends date (JInt 0) of Inl e \<Rightarrow> Inl e | Inr old \<Rightarrow>
     (case as_int old of Inl e \<Rightarrow> Inl e | Inr n \<Rightarrow>
     (case store sends date (JInt (n + cnt)) of Inl e \<Rightarrow> Inl e | Inr sends' \<Rightarrow>
     (case store history ''daily_sends'' sends' of Inl e \<Rightarrow> Inl e | Inr history' \<Rightarrow>
        Inr (history', save_history history'))))))"

section \<open>What the script prints and runs\<close>

datatype dataset = SendJson | MessagesJson | ReceiveJson

text \<open>
  One constructor for each message the script prints, with the values the message shows,
  and \<open>RunSwaks\<close> for the call of the external \<^verbatim>\<open>swaks\<close> with the sender's
  address, password and display name, the recipient, the subject and the body.
\<close>

datatype event =
    CrontabExists
  | CrontabSetUp string
  | CrontabSetupError
  | CrontabInfo
  | NoCrontabToRemove
  | CrontabEntryNotFound
  | CrontabRemoved
  | CrontabRemoveError
  | FiveDaysCompleted int
  | StatusHeader
  | CampaignStarted json
  | CurrentDay int
  | HistoryHeader
  | HistoryLine string json
  | NoCampaign
  | LoadingConfig
  | FileNotFound dataset
  | InvalidJson dataset
  | ReadError dataset
  | CouldNotLoad dataset
  | NotNonEmptyArray dataset
  | SwaksMissing
  | Found nat nat nat
  | ForceSending int
  | Planning int int
  | NoEmailsToday
  | TooFewRecipients int int
  | Processing nat int
  | InvalidRecipient json
  | InvalidCredentials
  | Sending json json json json
  | RunSwaks json json json json json json
  | SentOk json
  | SendFailed json
  | SendError json
  | Waiting nat
  | Summary "int option" int nat int
  | HistoryUpdated string
  | RecipientsRemaining int

section \<open>The crontab\<close>

text \<open>
  The user's crontab as \<^verbatim>\<open>crontab -l\<close> shows it: the command cannot be run
  (\<^verbatim>\<open>subprocess\<close> raises), there is no crontab (the command fails), or there is one
  with this text. Installing a new text is taken to succeed.
\<close>

datatype crontab = Unavailable | NoTable | Table string

definition newline :: char where
  "newline = CHR 0x0A"

text \<open>\<^verbatim>\<open>text.split('\n')\<close>\<close>

fun split_lines :: "string \<Rightarrow> string list" where
  "split_lines [] = [[]]"
| "split_lines (c # cs) =
     (if c = newline then [] # split_lines cs
      else (case split_lines cs of l # ls \<Rightarrow> (c # l) # ls | [] \<Rightarrow> [[c]]))"

text \<open>\<^verbatim>\<open>'\n'.join(ls) + '\n'\<close>, for a list that is not empty.\<close>

definition join_lines :: "string list \<Rightarrow> string" where
  "join_lines ls = concat (map (\<lambda>l. l @ [newline]) ls)"

text \<open>
  The characters that \<^verbatim>\<open>str.strip()\<close> and \<^verbatim>\<open>str.rstrip()\<close> remove, a character
  being a code point below 256: the ASCII white space and separators, U+0085 and U+00A0.
\<close>

definition is_space :: "char \<Rightarrow> bool" where
  "is_space c =
     (let n = (of_char c :: nat)
      in (9 \<le> n \<and> n \<le> 13) \<or> (28 \<le> n \<and> n \<le> 32) \<or> n = 133 \<or> n = 160)"

text \<open>\<^verbatim>\<open>not line.strip()\<close>\<close>

definition blank :: "string \<Rightarrow> bool" where
  "blank l = list_all is_space l"

text \<open>\<^verbatim>\<open>text.rstrip()\<close>\<close>

definition rstrip :: "string \<Rightarrow> string" where
  "rstrip s = rev (dropWhile is_space (rev s))"

text \<open>\<^verbatim>\<open>p in l\<close> on strings.\<close>

fun contains :: "string \<Rightarrow> string \<Rightarrow> bool" where
  "contains [] p = (p = [])"
| "contains (c # cs) p = (take (length p) (c # cs) = p \<or> contains cs p)"

definition cron_command :: "string \<Rightarrow> string" where
  "cron_command script_path = ''0 10 * * * /usr/bin/python3 '' @ script_path"

text \<open>\<^verbatim>\<open>setup_crontab()\<close>: the crontab it leaves, what it prints, and what it returns.\<close>

definition setup_crontab :: "string \<Rightarrow> crontab \<Rightarrow> crontab \<times> event list \<times> bool" where
  "setup_crontab script_path cron =
     (case cron of
        Unavailable \<Rightarrow> (Unavailable, [CrontabSetupError], False)
      | _ \<Rightarrow>
          (let current_cron = (case cron of Table t \<Rightarrow> t | _ \<Rightarrow> [])
           in if contains current_cron script_path then (cron, [CrontabExists], True)
              else
                (let new_cron =
                   (if current_cron \<noteq> []
                    then rstrip current_cron @ [newline] @ cron_command script_path @ [newline]
                    else cron_command script_path @ [newline])
                 in (Table new_cron, [CrontabSetUp (cron_command script_path)], True))))"

text \<open>\<^verbatim>\<open>remove_crontab()\<close>: the crontab it leaves and what it prints.\<close>

definition remove_crontab :: "string \<Rightarrow> crontab \<Rightarrow> crontab \<times> event list" where
  "remove_crontab script_path cron =
     (case cron of
        Unavailable \<Rightarrow> (Unavailable, [CrontabRemoveError])
      | NoTable \<Rightarrow> (NoTable, [NoCrontabToRemove])
      | Table current_cron \<Rightarrow>
          (let lines = split_lines current_cron;
               new_lines = filter (\<lambda>l. \<not> contains l script_path \<and> \<not> blank l) lines;
               removed = list_ex (\<lambda>l. contains l script_path) lines
           in if \<not> removed then (cron, [CrontabEntryNotFound])
              else if new_lines \<noteq> [] then (Table (join_lines new_lines), [CrontabRemoved])
              else (NoTable, [CrontabRemoved])))"

text \<open>
  \<^verbatim>\<open>check_and_cleanup_crontab(history)\<close>. Here \<open>now\<close> is the full
  \<^verbatim>\<open>datetime.now()\<close>, with its time of day.
\<close>

definition check_and_cleanup_crontab ::
  "datetime \<Rightarrow> string \<Rightarrow> json \<Rightarrow> crontab \<Rightarrow> py_error + (crontab \<times> event list)" where
  "check_and_cleanup_crontab now script_path history cron =
     (case subscript history ''start_date'' of Inl e \<Rightarrow> Inl e | Inr sd \<Rightarrow>
        if \<not> truthy sd then Inr (cron, [])
        else
         (case strptime sd of Inl e \<Rightarrow> Inl e | Inr start_date \<Rightarrow>
           (let days_passed = delta_days now start_date + 1
            in if days_passed > 5
               then (case remove_crontab script_path cron of
                       (cron', ev) \<Rightarrow> Inr (cron', FiveDaysCompleted days_passed # ev))
               else Inr (cron, []))))"

section \<open>One invocation\<close>

text \<open>The command line, as \<^verbatim>\<open>parse_arguments()\<close> returns it.\<close>

record args =
  setup_cron :: bool
  remove_cron :: bool
  force_send :: "int option"
  status :: bool

text \<open>
  What an invocation finds around it: the path of the script, the crontab, the four files
  next to the script, whether \<^verbatim>\<open>./swaks\<close> exists, the two readings of the clock
  (the first by the status report or the crontab check, the second when the quota is
  determined), the numbers the random generator yields, and for the \<open>i\<close>-th recipient
  whether \<^verbatim>\<open>swaks\<close> ends with exit status 0 in time.
\<close>

record world =
  script_path :: string
  crontab :: crontab
  history_file :: disk_file
  send_file :: disk_file
  messages_file :: disk_file
  receive_file :: disk_file
  swaks_exists :: bool
  now_check :: datetime
  now_quota :: datetime
  sample_draws :: "nat \<Rightarrow> nat"
  cred_draws :: "nat \<Rightarrow> nat"
  message_draws :: "nat \<Rightarrow> nat"
  delay_draws :: "nat \<Rightarrow> nat"
  send_outcome :: "nat \<Rightarrow> bool"

text \<open>
  How an invocation ends, and what it leaves: what it printed and ran, the crontab, the
  file \<^verbatim>\<open>history.json\<close>, and the recipients it selected (the value of
  \<^verbatim>\<open>selected_recipients\<close>, empty when the run ends before the selection).
\<close>

datatype outcome = Returned | Exited int | Raised py_error

record run =
  outcome :: outcome
  trace :: "event list"
  crontab_after :: crontab
  history_after :: disk_file
  selected :: "json list"

text \<open>\<^verbatim>\<open>load_json_file(filename)\<close>: what it prints and what it returns.\<close>

fun load_json_file :: "dataset \<Rightarrow> disk_file \<Rightarrow> event list \<times> json" where
  "load_json_file name Absent = ([FileNotFound name], JNull)"
| "load_json_file name Undecodable = ([InvalidJson name], JNull)"
| "load_json_file name Unreadable = ([ReadError name], JNull)"
| "load_json_file name (Document j) = ([], j)"

text \<open>\<^verbatim>\<open>not isinstance(data, list) or len(data) == 0\<close>\<close>

fun nonempty_list :: "json \<Rightarrow> json list option" where
  "nonempty_list (JList xs) = (if xs = [] then None else Some xs)"
| "nonempty_list _ = None"

text \<open>
  The loading and validation of the three lists and the test for \<^verbatim>\<open>swaks\<close>:
  \<open>None\<close> stands for \<^verbatim>\<open>sys.exit(1)\<close>.
\<close>

definition load_datasets ::
  "world \<Rightarrow> event list \<times> (json list \<times> json list \<times> json list) option" where
  "load_datasets w =
     (case load_json_file SendJson (send_file w) of (ev1, send_data) \<Rightarrow>
        if \<not> truthy send_data then (LoadingConfig # ev1 @ [CouldNotLoad SendJson], None)
        else
     (case load_json_file MessagesJson (messages_file w) of (ev2, messages_data) \<Rightarrow>
        if \<not> truthy messages_data
        then (LoadingConfig # ev1 @ ev2 @ [CouldNotLoad MessagesJson], None)
        else
     (case load_json_file ReceiveJson (receive_file w) of (ev3, receive_data) \<Rightarrow>
        if \<not> truthy receive_data
        then (LoadingConfig # ev1 @ ev2 @ ev3 @ [CouldNotLoad ReceiveJson], None)
        else
          (let ev = LoadingConfig # ev1 @ ev2 @ ev3 in
     (case nonempty_list send_data of
        None \<Rightarrow> (ev @ [NotNonEmptyArray SendJson], None) | Some senders \<Rightarrow>
     (case nonempty_list messages_data of
        None \<Rightarrow> (ev @ [NotNonEmptyArray MessagesJson], None) | Some messages \<Rightarrow>
     (case nonempty_list receive_data of
        None \<Rightarrow> (ev @ [NotNonEmptyArray ReceiveJson], None) | Some recipients \<Rightarrow>
        if \<not> swaks_exists w then (ev @ [SwaksMissing], None)
        else (ev @ [Found (length senders) (length messages) (length recipients)],
              Some (senders, messages, recipients)))))))))"

subsection \<open>Random choices\<close>

text \<open>
  \<^verbatim>\<open>random.sample(population, k)\<close>, as the library draws from a pool: the item at a
  random position is taken and the last item of the pool moves into its place. The
  \<open>i\<close>-th random number is \<open>draws i\<close>, reduced to the size of the pool. For a
  population of more than 21 items (more for a larger \<open>k\<close>) the library instead draws
  positions of the whole list and draws again on a position it has taken before; the model
  draws from the pool at every size, hence may select other items than the library for
  the same random numbers, at positions that are distinct all the same.
\<close>

fun sample_loop :: "(nat \<Rightarrow> nat) \<Rightarrow> 'a list \<Rightarrow> nat \<Rightarrow> nat \<Rightarrow> 'a list" where
  "sample_loop draws pool 0 i = []"
| "sample_loop draws pool (Suc k) i =
     (let j = draws i mod length pool
      in pool ! j # sample_loop draws (butlast (pool[j := last pool])) k (Suc i))"

definition random_sample :: "(nat \<Rightarrow> nat) \<Rightarrow> 'a list \<Rightarrow> int \<Rightarrow> py_error + 'a list" where
  "random_sample draws population k =
     (if k < 0 \<or> int (length population) < k then Inl ValueError
      else Inr (sample_loop draws population (nat k) 0))"

text \<open>\<^verbatim>\<open>random.choice(seq)\<close>\<close>

definition random_choice :: "nat \<Rightarrow> 'a list \<Rightarrow> py_error + 'a" where
  "random_choice draw seq = (if seq = [] then Inl IndexError else Inr (seq ! (draw mod length seq)))"

subsection \<open>Sending\<close>

fun is_str :: "json \<Rightarrow> bool" where
  "is_str (JStr s) = True"
| "is_str _ = False"

text \<open>A string with a NUL character cannot be an argument of a command.\<close>

fun has_nul :: "json \<Rightarrow> bool" where
  "has_nul (JStr s) = (CHR 0x00 \<in> set s)"
| "has_nul _ = False"

text \<open>
  \<^verbatim>\<open>send_email(...)\<close> for the \<open>i\<close>-th recipient. An argument of the command that is
  not a string, or a string with a NUL character in the command, makes
  \<^verbatim>\<open>subprocess.run\<close> raise, which the function catches; otherwise \<^verbatim>\<open>swaks\<close>
  runs, and a failure status and a timeout both count as a failed send. The random headers
  do not show in what the function prints or returns.
\<close>

definition send_email ::
  "world \<Rightarrow> nat \<Rightarrow> json \<Rightarrow> json \<Rightarrow> json \<Rightarrow> json \<Rightarrow> json \<Rightarrow> json \<Rightarrow> bool \<times> event list" where
  "send_email w i sender_email sender_password sender_display_name recipient_email subject body =
     (if is_str sender_email \<and> is_str sender_password \<and> is_str recipient_email \<and>
         is_str subject \<and> is_str body \<and>
         \<not> has_nul sender_email \<and> \<not> has_nul sender_password \<and>
         \<not> has_nul sender_display_name \<and> \<not> has_nul recipient_email \<and>
         \<not> has_nul subject \<and> \<not> has_nul body
      then
        (send_outcome w i,
         [Sending recipient_email subject sender_display_name sender_email,
          RunSwaks sender_email sender_password sender_display_name recipient_email subject body,
          if send_outcome w i then SentOk recipient_email else SendFailed recipient_email])
      else
        (False,
         [Sending recipient_email subject sender_display_name sender_email,
          SendError recipient_email]))"

definition default_subject :: string where
  "default_subject = ''Hello Great Meetings''"

definition default_body :: string where
  "default_body = ''Hey there, just wanted to say thanks for the great meeting and business conversation the other day!''"

text \<open>The address of a recipient given as a string or as an object with an \<^verbatim>\<open>email\<close>.\<close>

fun recipient_address :: "json \<Rightarrow> json option" where
  "recipient_address (JStr s) = Some (JStr s)"
| "recipient_address (JDict d) = map_of d ''email''"
| "recipient_address _ = None"

text \<open>
  The body of the loop over the selected recipients, for the \<open>i\<close>-th of
  \<open>emails_to_send\<close>: whether the item was sent (or the exception that ends the loop), and
  what was printed and run.
\<close>

definition process_recipient ::
  "world \<Rightarrow> json list \<Rightarrow> json list \<Rightarrow> int \<Rightarrow> nat \<Rightarrow> json \<Rightarrow> (py_error + bool) \<times> event list" where
  "process_recipient w send_data messages_data emails_to_send i recipient =
     (case random_choice (cred_draws w i) send_data of
        Inl e \<Rightarrow> (Inl e, [Processing i emails_to_send]) | Inr selected_creds \<Rightarrow>
     (case random_choice (message_draws w i) messages_data of
        Inl e \<Rightarrow> (Inl e, [Processing i emails_to_send]) | Inr selected_message \<Rightarrow>
     (case recipient_address recipient of
        None \<Rightarrow> (Inr False, [Processing i emails_to_send, InvalidRecipient recipient])
      | Some recipient_email \<Rightarrow>
     (case dict_get selected_creds ''email'' (JStr []) of
        Inl e \<Rightarrow> (Inl e, [Processing i emails_to_send]) | Inr sender_email \<Rightarrow>
     (case dict_get selected_creds ''password'' (JStr []) of
        Inl e \<Rightarrow> (Inl e, [Processing i emails_to_send]) | Inr sender_password \<Rightarrow>
     (case dict_get selected_creds ''display_name'' sender_email of
        Inl e \<Rightarrow> (Inl e, [Processing i emails_to_send]) | Inr sender_display_name \<Rightarrow>
     (case dict_get selected_message ''subject'' (JStr default_subject) of
        Inl e \<Rightarrow> (Inl e, [Processing i emails_to_send]) | Inr subject \<Rightarrow>
     (case dict_get selected_message ''body'' (JStr default_body) of
        Inl e \<Rightarrow> (Inl e, [Processing i emails_to_send]) | Inr body \<Rightarrow>
        if \<not> truthy sender_email \<or> \<not> truthy sender_password
        then (Inr False, [Processing i emails_to_send, InvalidCredentials])
        else
          (case send_email w i sender_email sender_password sender_display_name
                  recipient_email subject body of
             (ok, ev) \<Rightarrow>
               (Inr ok,
                Processing i emails_to_send # ev @
                (if int i < emails_to_send then [Waiting (30 + delay_draws w i mod 151)]
                 else [])))))))))))"

text \<open>
  The loop: the exception that ended it, if any, the number of successful sends, and
  what was printed and run.
\<close>

fun dispatch ::
  "world \<Rightarrow> json list \<Rightarrow> json list \<Rightarrow> int \<Rightarrow> nat \<Rightarrow> json list \<Rightarrow> py_error option \<times> nat \<times> event list"
  where
  "dispatch w send_data messages_data emails_to_send i [] = (None, 0, [])"
| "dispatch w send_data messages_data emails_to_send i (recipient # rest) =
     (case process_recipient w send_data messages_data emails_to_send i recipient of
        (Inl e, ev) \<Rightarrow> (Some e, 0, ev)
      | (Inr ok, ev) \<Rightarrow>
          (case dispatch w send_data messages_data emails_to_send (Suc i) rest of
             (err, successful_sends, ev') \<Rightarrow>
               (err, (if ok then 1 else 0) + successful_sends, ev @ ev')))"

subsection \<open>The orchestration\<close>

text \<open>\<^verbatim>\<open>if args.force_send\<close>: the count is tested for truth, and 0 is false.\<close>

definition forced :: "args \<Rightarrow> bool" where
  "forced a = (case force_send a of None \<Rightarrow> False | Some n \<Rightarrow> n \<noteq> 0)"

text \<open>
  How many emails to send today: the day number (\<open>None\<close> stands for
  \<^verbatim>\<open>"FORCED"\<close>), the count, today's date, the history as it is left, and what is
  printed.
\<close>

definition plan ::
  "args \<Rightarrow> world \<Rightarrow> json \<Rightarrow> py_error + (int option \<times> int \<times> string \<times> json \<times> event list)" where
  "plan a w history =
     (case (if forced a then force_send a else None) of
        Some emails_to_send \<Rightarrow>
          Inr (None, emails_to_send, strftime (now_quota w), history,
               [ForceSending emails_to_send])
      | None \<Rightarrow>
        (case get_current_day_info (now_quota w) history of
           Inl e \<Rightarrow> Inl e
         | Inr ((day_number, emails_to_send, today), history') \<Rightarrow>
             Inr (Some day_number, emails_to_send, today, history',
                  [Planning day_number emails_to_send])))"

text \<open>
  The limit to the available recipients and the selection: the warning, the count that
  is kept, and the selected recipients.
\<close>

definition choose_recipients ::
  "world \<Rightarrow> json list \<Rightarrow> int \<Rightarrow> event list \<times> int \<times> (py_error + json list)" where
  "choose_recipients w receive_data emails_to_send =
     (let available_recipients = int (length receive_data);
          ev = (if emails_to_send > available_recipients
                then [TooFewRecipients emails_to_send available_recipients] else []);
          emails_to_send' = (if emails_to_send > available_recipients
                             then available_recipients else emails_to_send)
      in (ev, emails_to_send', random_sample (sample_draws w) receive_data emails_to_send'))"

text \<open>\<^verbatim>\<open>sum(history["daily_sends"].values())\<close>\<close>

fun sum_ints :: "json list \<Rightarrow> py_error + int" where
  "sum_ints [] = Inr 0"
| "sum_ints (v # vs) =
     (case sum_ints vs of Inl e \<Rightarrow> Inl e | Inr t \<Rightarrow>
     (case as_int v of Inl e \<Rightarrow> Inl e | Inr n \<Rightarrow> Inr (n + t)))"

definition sum_daily_sends :: "json \<Rightarrow> py_error + int" where
  "sum_daily_sends history =
     (case subscript history ''daily_sends'' of
        Inl e \<Rightarrow> Inl e
      | Inr (JDict d) \<Rightarrow> sum_ints (map snd d)
      | Inr _ \<Rightarrow> Inl AttributeError)"

definition stop :: "world \<Rightarrow> outcome \<Rightarrow> event list \<Rightarrow> run" where
  "stop w oc ev =
     \<lparr>outcome = oc, trace = ev, crontab_after = crontab w,
      history_after = history_file w, selected = []\<rparr>"

text \<open>
  \<^verbatim>\<open>main()\<close> from the loading of the lists to its end. The crontab is not touched
  here.
\<close>

definition send_campaign :: "args \<Rightarrow> world \<Rightarrow> json \<Rightarrow> run" where
  "send_campaign a w history =
     (case load_datasets w of
        (ev0, None) \<Rightarrow> stop w (Exited 1) ev0
      | (ev0, Some (send_data, messages_data, receive_data)) \<Rightarrow>
     (case plan a w history of
        Inl e \<Rightarrow> stop w (Raised e) ev0
      | Inr (day_number, emails_to_send, today, history1, ev1) \<Rightarrow>
        if emails_to_send \<le> 0 then stop w Returned (ev0 @ ev1 @ [NoEmailsToday])
        else
     (case choose_recipients w receive_data emails_to_send of
        (ev2, n, Inl e) \<Rightarrow> stop w (Raised e) (ev0 @ ev1 @ ev2)
      | (ev2, n, Inr selected_recipients) \<Rightarrow>
     (case dispatch w send_data messages_data n 1 selected_recipients of
        (Some e, successful_sends, ev3) \<Rightarrow>
          (stop w (Raised e) (ev0 @ ev1 @ ev2 @ ev3))\<lparr>selected := selected_recipients\<rparr>
      | (None, successful_sends, ev3) \<Rightarrow>
     (case (if \<not> forced a \<and> successful_sends > 0
            then update_history history1 today (int successful_sends)
            else Inr (history1, history_file w)) of
        Inl e \<Rightarrow>
          (stop w (Raised e) (ev0 @ ev1 @ ev2 @ ev3))\<lparr>selected := selected_recipients\<rparr>
      | Inr (history2, file2) \<Rightarrow>
          (let ev4 = [Summary day_number n successful_sends (n - int successful_sends)];
               finished = (stop w Returned (ev0 @ ev1 @ ev2 @ ev3 @ ev4))
                        \<lparr>selected := selected_recipients, history_after := file2\<rparr>
           in if forced a then finished
              else
                (case sum_daily_sends history2 of
                   Inl e \<Rightarrow>
                     finished\<lparr>outcome := Raised e, trace := trace finished @ [HistoryUpdated today]\<rparr>
                 | Inr total_sent \<Rightarrow>
                     finished\<lparr>trace := trace finished @
                       [HistoryUpdated today,
                        RecipientsRemaining (int (length receive_data) - total_sent)]\<rparr>)))))))"

text \<open>The branch \<^verbatim>\<open>--status\<close> of \<^verbatim>\<open>main()\<close>.\<close>

definition show_status :: "world \<Rightarrow> json \<Rightarrow> run" where
  "show_status w history =
     (case subscript history ''start_date'' of
        Inl e \<Rightarrow> stop w (Raised e) [StatusHeader]
      | Inr sd \<Rightarrow>
          if \<not> truthy sd then stop w Returned [StatusHeader, NoCampaign]
          else
            (case strptime sd of
               Inl e \<Rightarrow> stop w (Raised e) [StatusHeader]
             | Inr start_date \<Rightarrow>
                (let ev = [StatusHeader, CampaignStarted sd,
                           CurrentDay (delta_days (now_check w) start_date + 1), HistoryHeader]
                 in case subscript history ''daily_sends'' of
                      Inl e \<Rightarrow> stop w (Raised e) ev
                    | Inr (JDict d) \<Rightarrow>
                        stop w Returned
                          (ev @ map (\<lambda>(date, n). HistoryLine date n) (sort_key fst d))
                    | Inr _ \<Rightarrow> stop w (Raised AttributeError) ev)))"

text \<open>\<^verbatim>\<open>main()\<close>\<close>

definition main :: "args \<Rightarrow> world \<Rightarrow> run" where
  "main a w =
     (if setup_cron a then
        (case setup_crontab (script_path w) (crontab w) of
           (cron', ev, ok) \<Rightarrow>
             (stop w Returned (ev @ (if ok then [CrontabInfo] else [])))\<lparr>crontab_after := cron'\<rparr>)
      else if remove_cron a then
        (case remove_crontab (script_path w) (crontab w) of
           (cron', ev) \<Rightarrow> (stop w Returned ev)\<lparr>crontab_after := cron'\<rparr>)
      else
        (let history = load_history (history_file w) in
         if status a then show_status w history
         else
           (case check_and_cleanup_crontab (now_check w) (script_path w) history (crontab w) of
              Inl e \<Rightarrow> stop w (Raised e) []
            | Inr (cron', ev) \<Rightarrow>
                (let r = send_campaign a w history
                 in r\<lparr>trace := ev @ trace r, crontab_after := cron'\<rparr>))))"


section \<open>Scenarios\<close>

text \<open>
  The inputs of the concrete runs below: days of a campaign that starts on 2024-01-01,
  a history as the third day finds it, and an installation with one sender, one message
  without a subject, two recipients, a crontab that holds only the script's entry, and a
  mail service that refuses every send.
\<close>

definition first_day :: datetime where
  "first_day = \<lparr>year = 2024, month = 1, day = 1, hour = 10, minute = 0, second = 0,
                 microsecond = 0\<rparr>"

definition third_day :: datetime where
  "third_day = \<lparr>year = 2024, month = 1, day = 3, hour = 10, minute = 0, second = 0,
                 microsecond = 0\<rparr>"

definition fifth_day :: datetime where
  "fifth_day = \<lparr>year = 2024, month = 1, day = 5, hour = 23, minute = 59, second = 59,
                 microsecond = 999999\<rparr>"

definition sixth_day :: datetime where
  "sixth_day = \<lparr>year = 2024, month = 1, day = 6, hour = 0, minute = 0, second = 0,
                 microsecond = 1\<rparr>"

definition started_history :: "(string \<times> json) list" where
  "started_history =
     [(''start_date'', JStr ''2024-01-01''), (''daily_sends'', JDict [(''2024-01-03'', JInt 2)])]"

definition scheduled :: args where
  "scheduled = \<lparr>setup_cron = False, remove_cron = False, force_send = None, status = False\<rparr>"

definition sender :: json where
  "sender = JDict [(''email'', JStr ''a@x''), (''password'', JStr ''pw'')]"

definition base_world :: world where
  "base_world =
     \<lparr>script_path = ''/m.py'',
      crontab = Table (cron_command ''/m.py'' @ [newline]),
      history_file = Absent,
      send_file = Document (JList [sender]),
      messages_file = Document (JList [JDict [(''body'', JStr ''hi'')]]),
      receive_file = Document (JList [JStr ''r@y'', JStr ''s@y'']),
      swaks_exists = True,
      now_check = first_day,
      now_quota = first_day,
      sample_draws = (\<lambda>i. 0),
      cred_draws = (\<lambda>i. 0),
      message_draws = (\<lambda>i. 0),
      delay_draws = (\<lambda>i. 0),
      send_outcome = (\<lambda>i. False)\<rparr>"

text \<open>The same installation with a mail service that accepts every send.\<close>

definition willing_world :: world where
  "willing_world = base_world\<lparr>send_outcome := (\<lambda>i. True)\<rparr>"

section \<open>Printing and parsing a date agree\<close>

lemma is_digit_digit_char: "k < 10 \<Longrightarrow> is_digit (digit_char k)"
  by (simp add: is_digit_def digit_char_def)

lemma digit_val_digit_char: "k < 10 \<Longrightarrow> digit_val (digit_char k) = k"
  by (simp add: digit_val_def digit_char_def)

lemma digit_char_simps:
  "digit_char 0 = CHR ''0''" "digit_char 1 = CHR ''1''" "digit_char (Suc 0) = CHR ''1''" "digit_char 2 = CHR ''2''"
  "digit_char 3 = CHR ''3''" "digit_char 4 = CHR ''4''" "digit_char 5 = CHR ''5''"
  "digit_char 6 = CHR ''6''" "digit_char 7 = CHR ''7''" "digit_char 8 = CHR ''8''"
  "digit_char 9 = CHR ''9''"
  by code_simp+

lemma pad2_simps:
  "pad2 1 = ''01''" "pad2 (Suc 0) = ''01''" "pad2 2 = ''02''" "pad2 3 = ''03''" "pad2 4 = ''04''" "pad2 5 = ''05''"
  "pad2 6 = ''06''" "pad2 7 = ''07''" "pad2 8 = ''08''" "pad2 9 = ''09''" "pad2 10 = ''10''"
  "pad2 11 = ''11''" "pad2 12 = ''12''" "pad2 13 = ''13''" "pad2 14 = ''14''" "pad2 15 = ''15''"
  "pad2 16 = ''16''" "pad2 17 = ''17''" "pad2 18 = ''18''" "pad2 19 = ''19''" "pad2 20 = ''20''"
  "pad2 21 = ''21''" "pad2 22 = ''22''" "pad2 23 = ''23''" "pad2 24 = ''24''" "pad2 25 = ''25''"
  "pad2 26 = ''26''" "pad2 27 = ''27''" "pad2 28 = ''28''" "pad2 29 = ''29''" "pad2 30 = ''30''"
  "pad2 31 = ''31''"
  by code_simp+

lemma digit_val_simps: "digit_val CHR ''0'' = 0" "digit_val CHR ''1'' = 1" "digit_val CHR ''2'' = 2"
  "digit_val CHR ''3'' = 3" "digit_val CHR ''4'' = 4" "digit_val CHR ''5'' = 5"
  "digit_val CHR ''6'' = 6" "digit_val CHR ''7'' = 7" "digit_val CHR ''8'' = 8"
  "digit_val CHR ''9'' = 9"
  by (simp_all add: digit_val_def)

lemma is_digit_simps: "is_digit CHR ''0''" "is_digit CHR ''1''" "is_digit CHR ''2''"
  "is_digit CHR ''3''" "is_digit CHR ''4''" "is_digit CHR ''5''"
  "is_digit CHR ''6''" "is_digit CHR ''7''" "is_digit CHR ''8''"
  "is_digit CHR ''9''"
  by (simp_all add: is_digit_def)

lemma months_enum:
  assumes "1 \<le> m" "m \<le> 12"
  shows "m \<in> set [1,2,3,4,5,6,7,8,9,10,11,12::nat]"
proof -
  from assms have "m \<in> set [1..<13]" by simp
  also have "[1..<13] = [1,2,3,4,5,6,7,8,9,10,11,12::nat]" by code_simp
  finally show ?thesis .
qed

lemma days_enum:
  assumes "1 \<le> d" "d \<le> 31"
  shows "d \<in> set [1,2,3,4,5,6,7,8,9,10,11,12,13,14,15,16,17,18,19,20,21,22,23,24,25,26,27,28,29,30,31::nat]"
proof -
  from assms have "d \<in> set [1..<32]" by simp
  also have "[1..<32] = [1,2,3,4,5,6,7,8,9,10,11,12,13,14,15,16,17,18,19,20,21,22,23,24,25,26,27,28,29,30,31::nat]" by code_simp
  finally show ?thesis .
qed

lemma parse_month_pad2:
  assumes "1 \<le> m" "m \<le> 12"
  shows "parse_month (pad2 m @ r) = Some (m, r)"
  using months_enum [OF assms]
  by (auto simp add: pad2_simps digit_val_simps is_digit_simps nonzero_digit_def)

lemma parse_day_pad2:
  assumes "1 \<le> d" "d \<le> 31"
  shows "parse_day (pad2 d) = Some (d, [])"
  using days_enum [OF assms]
  by (auto simp add: pad2_simps digit_val_simps is_digit_simps nonzero_digit_def)

lemma decimal4:
  assumes "(y::nat) \<le> 9999"
  shows "1000 * (y div 1000 mod 10) + 100 * (y div 100 mod 10) + 10 * (y div 10 mod 10) + y mod 10 = y"
proof -
  define q1 r0 where "q1 = y div 10" and "r0 = y mod 10"
  define q2 r1 where "q2 = q1 div 10" and "r1 = q1 mod 10"
  define q3 r2 where "q3 = q2 div 10" and "r2 = q2 mod 10"
  have a: "y div 100 = q2" by (simp add: q1_def q2_def div_mult2_eq)
  have b: "y div 1000 = q3" by (simp add: q1_def q2_def q3_def div_mult2_eq)
  have c: "q3 < 10" using assms unfolding b [symmetric] by simp
  have e1: "y = 10 * q1 + r0" by (simp add: q1_def r0_def)
  have e2: "q1 = 10 * q2 + r1" by (simp add: q2_def r1_def)
  have e3: "q2 = 10 * q3 + r2" by (simp add: q3_def r2_def)
  have "1000 * q3 + 100 * r2 + 10 * r1 + r0 = y"
    using e1 e2 e3 by linarith
  then show ?thesis
    using c by (simp add: a b q1_def [symmetric] r0_def r1_def r2_def)
qed

lemma parse_year_pad4:
  assumes "y \<le> 9999"
  shows "parse_year (pad4 y @ r) = Some (y, r)"
  using decimal4 [OF assms] by (simp add: pad4_def is_digit_digit_char digit_val_digit_char del: mod_less)

lemma days_in_month_le: "days_in_month y m \<le> 31"
  by (simp add: days_in_month_def)

lemma parse_ymd_strftime:
  assumes "dt_valid t"
  shows "parse_ymd (strftime t) = Some (year t, month t, day t)"
proof -
  from assms have y: "year t \<le> 9999" and m: "1 \<le> month t" "month t \<le> 12"
    and d: "1 \<le> day t" "day t \<le> 31"
    using days_in_month_le [of "year t" "month t"]
    by (auto simp: dt_valid_def date_valid_def)
  show ?thesis
    by (simp add: parse_ymd_def strftime_def parse_year_pad4 [OF y] parse_month_pad2 [OF m]
        parse_day_pad2 [OF d])
qed

lemma strptime_strftime:
  assumes "dt_valid t"
  shows "strptime_str (strftime t) = Inr (midnight (year t) (month t) (day t))"
  using assms by (simp add: strptime_str_def parse_ymd_strftime dt_valid_def)

lemma strftime_nonempty: "strftime t \<noteq> []"
  by (simp add: strftime_def pad4_def)

section \<open>Days between two readings of the clock\<close>

lemma toordinal_midnight: "toordinal (midnight y m d) = days_before_year y + days_before_month y m + int d"
  by (simp add: toordinal_def midnight_def)

lemma us_of_day_midnight: "us_of_day (midnight y m d) = 0"
  by (simp add: us_of_day_def midnight_def)

lemma us_of_day_bounds:
  assumes "dt_valid t"
  shows "0 \<le> us_of_day t" "us_of_day t < 86400000000"
proof -
  show "0 \<le> us_of_day t" by (simp add: us_of_day_def)
  from assms have "int (hour t) \<le> 23" "int (minute t) \<le> 59" "int (second t) \<le> 59"
    "int (microsecond t) \<le> 999999"
    by (auto simp: dt_valid_def)
  then show "us_of_day t < 86400000000"
    unfolding us_of_day_def by (simp add: algebra_simps)
qed

lemma floor_days:
  assumes "0 \<le> r" "r < 86400000000"
  shows "(q * 86400000000 + r) div 86400000000 = (q::int)"
  using assms by simp

lemma delta_days_midnight:
  assumes "0 \<le> us_of_day a" "us_of_day a < 86400000000" "us_of_day b = 0"
  shows "delta_days a b = toordinal a - toordinal b"
  using assms floor_days [of "us_of_day a" "toordinal a - toordinal b"]
  by (simp add: delta_days_def)

lemma strptime_str_midnight:
  assumes "strptime_str s = Inr D"
  shows "us_of_day D = 0"
  using assms
  by (auto simp: strptime_str_def us_of_day_midnight split: option.splits if_splits)

lemma today_ordinal:
  "toordinal (midnight (year t) (month t) (day t)) = toordinal t"
  by (simp add: toordinal_def midnight_def)

lemma day_number_eq:
  assumes "dt_valid now" "strptime_str s = Inr D"
  shows "delta_days (midnight (year now) (month now) (day now)) D = toordinal now - toordinal D"
  using delta_days_midnight [of "midnight (year now) (month now) (day now)" D]
    strptime_str_midnight [OF assms(2)]
  by (simp add: us_of_day_midnight today_ordinal)

lemma delta_days_clock:
  assumes "dt_valid now" "strptime_str s = Inr D"
  shows "delta_days now D = toordinal now - toordinal D"
  using delta_days_midnight [OF us_of_day_bounds [OF assms(1)] strptime_str_midnight [OF assms(2)]] .

section \<open>The day number and the quota\<close>

text \<open>
  Claim C1. For a history whose \<open>start_date\<close> parses to the date \<open>D\<close> and a clock that
  reads a day \<open>k\<close> days after \<open>D\<close>, \<open>get_current_day_info\<close> returns the day number
  \<open>k + 1\<close> and the quota \<open>max 0 (k + 1 - n)\<close>, where \<open>n\<close> is the entry of
  \<open>daily_sends\<close> for today when there is one and 0 otherwise, and it leaves the history as
  it is. For a history whose \<open>start_date\<close> is absent it stores today as \<open>start_date\<close>
  and returns the day number 1.
\<close>

theorem get_current_day_info_spec:
  assumes "clock_valid now"
    and "map_of h ''daily_sends'' = Some (JDict sends)"
    and "map_of sends (strftime now) = None \<and> n = 0 \<or> map_of sends (strftime now) = Some (JInt n)"
  shows "(map_of h ''start_date'' = Some (JStr s) \<and> strptime_str s = Inr D \<and>
          toordinal now = toordinal D + int k \<longrightarrow>
            get_current_day_info now (JDict h) =
              Inr ((int k + 1, max 0 (int k + 1 - n), strftime now), JDict h))
       \<and> (map_of h ''start_date'' = Some JNull \<longrightarrow>
            get_current_day_info now (JDict h) =
              Inr ((1, max 0 (1 - n), strftime now),
                   JDict (AList.update ''start_date'' (JStr (strftime now)) h)))"
proof (intro conjI impI)
  assume a: "map_of h ''start_date'' = Some (JStr s) \<and> strptime_str s = Inr D \<and>
          toordinal now = toordinal D + int k"
  from assms(1) have v: "dt_valid now" by (simp add: clock_valid_def)
  from a have "s \<noteq> []" by (auto simp: strptime_str_def parse_ymd_def)
  with a assms(2,3) v show "get_current_day_info now (JDict h) =
              Inr ((int k + 1, max 0 (int k + 1 - n), strftime now), JDict h)"
    by (auto simp: get_current_day_info_def Let_def strptime_strftime day_number_eq)
next
  assume "map_of h ''start_date'' = Some JNull"
  with assms(2,3) show "get_current_day_info now (JDict h) =
              Inr ((1, max 0 (1 - n), strftime now),
                   JDict (AList.update ''start_date'' (JStr (strftime now)) h))"
    by (auto simp: get_current_day_info_def Let_def AList.update_conv')
qed

text \<open>
  Claim C8. A second call of \<open>get_current_day_info\<close> at the same clock reading, on the
  history as the first call left it and with nothing saved in between, returns what the
  first call returned, also when the first call set \<open>start_date\<close>.
\<close>

theorem get_current_day_info_idempotent:
  assumes "clock_valid now" and "get_current_day_info now history = Inr (r, history')"
  shows "get_current_day_info now history' = Inr (r, history')"
proof -
  from assms(1) have v: "dt_valid now" by (simp add: clock_valid_def)
  obtain h where h: "history = JDict h"
    using assms(2) by (cases history) (simp_all add: get_current_day_info_def)
  obtain sd where sd: "map_of h ''start_date'' = Some sd"
    using assms(2) h by (cases "map_of h ''start_date''") (simp_all add: get_current_day_info_def)
  show ?thesis
  proof (cases "truthy sd")
    case True
    with assms(2) h sd have "history' = history"
      by (auto simp: get_current_day_info_def Let_def split: sum.splits)
    with assms(2) show ?thesis by simp
  next
    case False
    have z: "delta_days (midnight (year now) (month now) (day now))
                        (midnight (year now) (month now) (day now)) = 0"
      by (simp add: delta_days_def)
    from False assms(2) h sd show ?thesis
      by (auto simp: get_current_day_info_def Let_def AList.update_conv' strftime_nonempty
            strptime_strftime [OF v] z split: sum.splits)
  qed
qed

lemma fresh_run_info:
  "get_current_day_info now fresh_history =
     Inr ((1, 1, strftime now),
          JDict [(''start_date'', JStr (strftime now)), (''daily_sends'', JDict [])])"
  by (simp add: get_current_day_info_def fresh_history_def Let_def)

section \<open>Loading and saving the history\<close>

lemma check_fresh: "check_and_cleanup_crontab now p fresh_history c = Inr (c, [])"
  by (simp add: check_and_cleanup_crontab_def fresh_history_def)

text \<open>
  Claim C7, amended. \<open>load_history\<close> returns a value in every case. When
  \<^verbatim>\<open>history.json\<close> does not exist, cannot be read, or cannot be decoded as JSON, the
  value is the empty state, with \<open>start_date\<close> absent and no \<open>daily_sends\<close>, and the
  run goes on as a first run: the crontab check does nothing and the quota is that of
  day 1. A file that decodes is returned as decoded, whatever its shape.
\<close>

theorem load_history_falls_back:
  "((\<forall>j. f \<noteq> Document j) \<longrightarrow>
      load_history f = JDict [(''start_date'', JNull), (''daily_sends'', JDict [])] \<and>
      check_and_cleanup_crontab now path (load_history f) cron = Inr (cron, []) \<and>
      get_current_day_info now' (load_history f) =
        Inr ((1, 1, strftime now'),
             JDict [(''start_date'', JStr (strftime now')), (''daily_sends'', JDict [])]))
   \<and> load_history (Document j) = j"
proof (rule conjI)
  show "(\<forall>j. f \<noteq> Document j) \<longrightarrow>
      load_history f = JDict [(''start_date'', JNull), (''daily_sends'', JDict [])] \<and>
      check_and_cleanup_crontab now path (load_history f) cron = Inr (cron, []) \<and>
      get_current_day_info now' (load_history f) =
        Inr ((1, 1, strftime now'),
             JDict [(''start_date'', JStr (strftime now')), (''daily_sends'', JDict [])])"
  proof
    assume "\<forall>j. f \<noteq> Document j"
    then have "load_history f = fresh_history" by (cases f) simp_all
    then show "load_history f = JDict [(''start_date'', JNull), (''daily_sends'', JDict [])] \<and>
      check_and_cleanup_crontab now path (load_history f) cron = Inr (cron, []) \<and>
      get_current_day_info now' (load_history f) =
        Inr ((1, 1, strftime now'),
             JDict [(''start_date'', JStr (strftime now')), (''daily_sends'', JDict [])])"
      by (simp add: check_fresh fresh_run_info) (simp add: fresh_history_def)
  qed
next
  show "load_history (Document j) = j" by simp
qed

text \<open>
  Claim C9, amended. \<open>save_history\<close> overwrites the record in place: the file is first
  truncated, and read at that point it gives the empty state; when the call returns the
  file holds the whole state, and \<open>load_history\<close> gives it back.
\<close>

theorem save_history_in_place:
  "map load_history (save_history_steps history) = [fresh_history, history] \<and>
   load_history (save_history history) = history"
  by (simp add: save_history_steps_def save_history_def)

section \<open>Removing the crontab entry\<close>

lemma split_lines_nonempty: "split_lines s \<noteq> []"
  by (induction s) (auto split: list.splits)

lemma split_lines_append_line:
  "newline \<notin> set l \<Longrightarrow> split_lines (l @ newline # s) = l # split_lines s"
  by (induction l) (auto split: list.splits)

lemma split_lines_join:
  "\<forall>l \<in> set ls. newline \<notin> set l \<Longrightarrow> split_lines (join_lines ls) = ls @ [[]]"
  by (induction ls) (simp_all add: join_lines_def split_lines_append_line)

lemma split_lines_no_newline: "l \<in> set (split_lines s) \<Longrightarrow> newline \<notin> set l"
proof (induction s arbitrary: l)
  case Nil
  then show ?case by simp
next
  case (Cons c s)
  show ?case
  proof (cases "c = newline")
    case True
    with Cons show ?thesis by auto
  next
    case False
    from split_lines_nonempty [of s] obtain x xs where sp: "split_lines s = x # xs"
      by (cases "split_lines s") auto
    with Cons False show ?thesis by auto
  qed
qed

lemma contains_empty: "contains l [] = True"
  by (cases l) simp_all

lemma remove_crontab_clears:
  assumes "fst (remove_crontab path cron) = Table t'" "l \<in> set (split_lines t')"
  shows "\<not> contains l path"
proof (cases cron)
  case Unavailable
  with assms show ?thesis by (simp add: remove_crontab_def)
next
  case NoTable
  with assms show ?thesis by (simp add: remove_crontab_def)
next
  case (Table t)
  define kept where "kept = filter (\<lambda>l. \<not> contains l path \<and> \<not> blank l) (split_lines t)"
  show ?thesis
  proof (cases "list_ex (\<lambda>l. contains l path) (split_lines t)")
    case False
    with Table assms(1) have "t' = t" by (simp add: remove_crontab_def Let_def)
    with False assms(2) show ?thesis by (auto simp: list_ex_iff)
  next
    case True
    with Table assms(1) have ne: "kept \<noteq> []" and t': "t' = join_lines kept"
      by (auto simp: remove_crontab_def Let_def kept_def split: if_splits)
    have nl: "\<forall>l \<in> set kept. newline \<notin> set l"
      by (auto simp: kept_def dest: split_lines_no_newline)
    from assms(2) t' split_lines_join [OF nl] have "l \<in> set kept \<or> l = []" by auto
    then show ?thesis
    proof
      assume "l \<in> set kept"
      then show ?thesis by (simp add: kept_def)
    next
      assume e: "l = []"
      from ne obtain k where k: "k \<in> set kept" by (cases kept) auto
      then have "\<not> contains k path" by (simp add: kept_def)
      then have "path \<noteq> []" using contains_empty [of k] by auto
      with e show ?thesis by simp
    qed
  qed
qed

lemma check_days:
  assumes "dt_valid now"
    and "subscript history ''start_date'' = Inr (JStr s)"
    and "strptime_str s = Inr D"
  shows "check_and_cleanup_crontab now path history cron =
           (if toordinal now - toordinal D + 1 > 5
            then Inr (fst (remove_crontab path cron),
                      FiveDaysCompleted (toordinal now - toordinal D + 1) #
                      snd (remove_crontab path cron))
            else Inr (cron, []))"
proof -
  from assms(3) have "s \<noteq> []" by (auto simp: strptime_str_def parse_ymd_def)
  with assms(2,3) show ?thesis
    by (simp add: check_and_cleanup_crontab_def Let_def delta_days_clock [OF assms(1,3)]
        split: prod.splits)
qed

text \<open>
  Claim C4. For a history whose \<open>start_date\<close> parses to the date \<open>D\<close>,
  \<open>check_and_cleanup_crontab\<close> calls \<open>remove_crontab\<close> exactly when
  \<open>(today - D).days + 1\<close> exceeds 5, whatever the time of day, and otherwise leaves the
  crontab alone; and the crontab that \<open>remove_crontab\<close> leaves has no line that
  contains the path of the script.
\<close>

theorem check_and_cleanup_crontab_after_five_days:
  assumes "dt_valid now"
    and "subscript history ''start_date'' = Inr (JStr s)"
    and "strptime_str s = Inr D"
  shows "check_and_cleanup_crontab now path history cron =
           (if toordinal now - toordinal D + 1 > 5
            then Inr (fst (remove_crontab path cron),
                      FiveDaysCompleted (toordinal now - toordinal D + 1) #
                      snd (remove_crontab path cron))
            else Inr (cron, []))
         \<and> (\<forall>t'. fst (remove_crontab path cron) = Table t' \<longrightarrow>
               (\<forall>l \<in> set (split_lines t'). \<not> contains l path))"
  using check_days [OF assms] remove_crontab_clears by blast

section \<open>The crontab a run leaves\<close>

lemma main_crontab:
  assumes "\<not> setup_cron a" "\<not> remove_cron a" "\<not> status a"
  shows "crontab_after (main a w) =
           (case check_and_cleanup_crontab (now_check w) (script_path w)
                   (load_history (history_file w)) (crontab w) of
              Inl e \<Rightarrow> crontab w | Inr (c, ev) \<Rightarrow> c)"
  using assms by (simp add: main_def stop_def Let_def split: sum.splits prod.splits)

lemma main_crontab_force:
  "crontab_after (main (a\<lparr>force_send := f\<rparr>) w) = crontab_after (main a w)"
  by (simp add: main_def stop_def Let_def show_status_def split: sum.splits prod.splits)

text \<open>
  Claim C3, amended. Every run that is not \<^verbatim>\<open>--setup-cron\<close>, \<^verbatim>\<open>--remove-cron\<close>
  or \<^verbatim>\<open>--status\<close> runs \<open>check_and_cleanup_crontab\<close> on the loaded history, and
  leaves the crontab as that check leaves it; the option \<^verbatim>\<open>--force-send\<close> makes no
  difference to the crontab a run leaves.
\<close>

theorem crontab_check_on_every_run:
  "(\<not> setup_cron a \<and> \<not> remove_cron a \<and> \<not> status a \<longrightarrow>
      crontab_after (main a w) =
        (case check_and_cleanup_crontab (now_check w) (script_path w)
                (load_history (history_file w)) (crontab w) of
           Inl e \<Rightarrow> crontab w | Inr (c, ev) \<Rightarrow> c))
   \<and> crontab_after (main (a\<lparr>force_send := f\<rparr>) w) = crontab_after (main a w)"
  using main_crontab [of a w] main_crontab_force [where a = a and f = f and w = w] by blast

section \<open>A forced count of zero\<close>

lemma forced_zero: "forced (a\<lparr>force_send := Some 0\<rparr>) = forced (a\<lparr>force_send := None\<rparr>)"
  by (simp add: forced_def)

lemma plan_zero: "plan (a\<lparr>force_send := Some 0\<rparr>) w h = plan (a\<lparr>force_send := None\<rparr>) w h"
  by (simp add: plan_def forced_def)

lemma send_campaign_zero:
  "send_campaign (a\<lparr>force_send := Some 0\<rparr>) w h = send_campaign (a\<lparr>force_send := None\<rparr>) w h"
  unfolding send_campaign_def forced_zero plan_zero ..

lemma plan_zero_computes:
  "plan (a\<lparr>force_send := Some 0\<rparr>) w history =
     (case get_current_day_info (now_quota w) history of
        Inl e \<Rightarrow> Inl e
      | Inr ((day_number, emails_to_send, today), history') \<Rightarrow>
          Inr (Some day_number, emails_to_send, today, history',
               [Planning day_number emails_to_send]))"
  by (simp add: plan_def forced_def)

lemma main_force_send_zero:
  "main (a\<lparr>force_send := Some 0\<rparr>) w = main (a\<lparr>force_send := None\<rparr>) w"
  by (simp add: main_def send_campaign_zero Let_def cong: sum.case_cong prod.case_cong)

section \<open>Sampling without replacement\<close>











section \<open>The items of a batch\<close>

text \<open>
  Claim C6, amended. For a recipient with an address, a sender and a message that are
  JSON objects: when the sender's \<open>email\<close> or \<open>password\<close> is missing or empty, the item
  is skipped, with the message of invalid credentials and no send; whenever
  \<^verbatim>\<open>swaks\<close> is run, the sender's address and password are not empty, and the subject
  and the body are the message's own \<open>subject\<close> and \<open>body\<close> when it has these keys
  (empty or not) and the defaults, which are not empty, exactly when the key is absent;
  and the item never ends the loop with an exception.
\<close>

theorem process_recipient_checks:
  assumes "random_choice (cred_draws w i) send_data = Inr (JDict c)"
    and "random_choice (message_draws w i) messages_data = Inr (JDict m)"
    and "recipient_address recipient = Some addr"
  shows
    "(\<not> truthy (case map_of c ''email'' of None \<Rightarrow> JStr [] | Some v \<Rightarrow> v) \<or>
      \<not> truthy (case map_of c ''password'' of None \<Rightarrow> JStr [] | Some v \<Rightarrow> v) \<longrightarrow>
        process_recipient w send_data messages_data n i recipient =
          (Inr False, [Processing i n, InvalidCredentials]))
     \<and> (RunSwaks se sp dn rc sj bd \<in>
          set (snd (process_recipient w send_data messages_data n i recipient)) \<longrightarrow>
        truthy se \<and> truthy sp \<and>
        sj = (case map_of m ''subject'' of None \<Rightarrow> JStr default_subject | Some v \<Rightarrow> v) \<and>
        bd = (case map_of m ''body'' of None \<Rightarrow> JStr default_body | Some v \<Rightarrow> v))
     \<and> (\<exists>ok ev. process_recipient w send_data messages_data n i recipient = (Inr ok, ev))
     \<and> default_subject \<noteq> [] \<and> default_body \<noteq> []"
proof -
  define email where "email = (case map_of c ''email'' of None \<Rightarrow> JStr [] | Some v \<Rightarrow> v)"
  define password where
    "password = (case map_of c ''password'' of None \<Rightarrow> JStr [] | Some v \<Rightarrow> v)"
  define display where
    "display = (case map_of c ''display_name'' of None \<Rightarrow> email | Some v \<Rightarrow> v)"
  define subject where
    "subject = (case map_of m ''subject'' of None \<Rightarrow> JStr default_subject | Some v \<Rightarrow> v)"
  define body where
    "body = (case map_of m ''body'' of None \<Rightarrow> JStr default_body | Some v \<Rightarrow> v)"
  define pause where
    "pause = (if int i < n then [Waiting (30 + delay_draws w i mod 151)] else [])"
  have step: "process_recipient w send_data messages_data n i recipient =
      (if \<not> truthy email \<or> \<not> truthy password
       then (Inr False, [Processing i n, InvalidCredentials])
       else (Inr (fst (send_email w i email password display addr subject body)),
             Processing i n # snd (send_email w i email password display addr subject body)
               @ pause))"
    unfolding process_recipient_def assms email_def password_def display_def subject_def
      body_def pause_def
    by (simp split: option.splits prod.splits)
  have sent: "truthy email \<and> truthy password \<and> se = email \<and> sp = password \<and>
              sj = subject \<and> bd = body"
    if "RunSwaks se sp dn rc sj bd \<in>
          set (snd (process_recipient w send_data messages_data n i recipient))"
    using that unfolding step
    by (auto simp: send_email_def pause_def split: if_splits)
  have defaults: "default_subject \<noteq> [] \<and> default_body \<noteq> []"
    by (simp add: default_subject_def default_body_def)
  show ?thesis
    using step sent defaults
    unfolding email_def [symmetric] password_def [symmetric] subject_def [symmetric]
      body_def [symmetric]
    by auto
qed

text \<open>
  A run in which no send succeeds leaves \<^verbatim>\<open>history.json\<close> as it found it, whatever
  the quota computation set in the history it holds.
\<close>

lemma process_recipient_fails:
  assumes "\<forall>i. \<not> send_outcome w i"
  shows "fst (process_recipient w send_data messages_data n i recipient) \<noteq> Inr True"
  using assms
  by (auto simp: process_recipient_def send_email_def split: sum.splits option.splits)

lemma dispatch_fails:
  assumes "\<forall>i. \<not> send_outcome w i"
  shows "fst (snd (dispatch w send_data messages_data n i recipients)) = 0"
proof (induction recipients arbitrary: i)
  case Nil
  then show ?case by simp
next
  case (Cons r rs)
  show ?case
  proof (cases "process_recipient w send_data messages_data n i r")
    case (Pair res ev)
    show ?thesis
    proof (cases res)
      case (Inl e)
      with Pair show ?thesis by simp
    next
      case (Inr ok)
      with Pair process_recipient_fails [OF assms, of send_data messages_data n i r]
      have "\<not> ok" by auto
      with Pair Inr Cons.IH [of "Suc i"] show ?thesis
        by (auto split: prod.splits)
    qed
  qed
qed

lemma send_campaign_without_success:
  assumes "\<forall>i. \<not> send_outcome w i"
  shows "history_after (send_campaign a w history) = history_file w"
proof -
  have z: "successful = 0"
    if "dispatch w sd md n i sel = (err, successful, ev)" for sd md n i sel err successful ev
    using dispatch_fails [OF assms, of sd md n i sel] that by simp
  show ?thesis
    by (auto simp: send_campaign_def stop_def Let_def
        split: prod.splits option.splits sum.splits dest: z)
qed

lemma main_without_success:
  assumes "\<forall>i. \<not> send_outcome w i"
  shows "history_after (main a w) = history_file w"
  using send_campaign_without_success [OF assms]
  by (simp add: main_def stop_def Let_def show_status_def
      split: sum.splits prod.splits json.splits)

section \<open>The scenarios, evaluated\<close>

lemma first_day_valid: "clock_valid first_day"
  by (simp add: first_day_def clock_valid_def dt_valid_def date_valid_def days_in_month_def)

lemma third_day_valid: "clock_valid third_day"
  by (simp add: third_day_def clock_valid_def dt_valid_def date_valid_def days_in_month_def)

lemma fifth_day_valid: "dt_valid fifth_day"
  by (simp add: fifth_day_def dt_valid_def date_valid_def days_in_month_def)

lemma sixth_day_valid: "dt_valid sixth_day"
  by (simp add: sixth_day_def dt_valid_def date_valid_def days_in_month_def)

lemma strftime_first_day: "strftime first_day = ''2024-01-01''"
  by (simp add: first_day_def strftime_def pad4_def pad2_def digit_char_simps)

lemma strftime_third_day: "strftime third_day = ''2024-01-03''"
  by (simp add: third_day_def strftime_def pad4_def pad2_def digit_char_simps)

lemma strptime_start: "strptime_str ''2024-01-01'' = Inr (midnight 2024 1 1)"
  by (simp add: strptime_str_def parse_ymd_def is_digit_simps digit_val_simps nonzero_digit_def
      date_valid_def days_in_month_def)

lemma ordinal_third_day: "toordinal third_day = toordinal (midnight 2024 1 1) + int 2"
  by (simp add: third_day_def toordinal_def midnight_def days_before_month_def)

lemma ordinal_fifth_day: "toordinal fifth_day - toordinal (midnight 2024 1 1) + 1 = 5"
  by (simp add: fifth_day_def toordinal_def midnight_def days_before_month_def)

lemma ordinal_sixth_day: "toordinal sixth_day - toordinal (midnight 2024 1 1) + 1 = 6"
  by (simp add: sixth_day_def toordinal_def midnight_def days_before_month_def)

lemma remove_only_entry:
  "remove_crontab ''/m.py'' (Table (cron_command ''/m.py'' @ [newline])) =
     (NoTable, [CrontabRemoved])"
  by (simp add: remove_crontab_def cron_command_def Let_def blank_def newline_def)

lemma started_start_date:
  "subscript (JDict started_history) ''start_date'' = Inr (JStr ''2024-01-01'')"
  by (simp add: started_history_def)

lemma check_sixth_day:
  "check_and_cleanup_crontab sixth_day ''/m.py'' (JDict started_history)
     (Table (cron_command ''/m.py'' @ [newline])) =
     Inr (NoTable, [FiveDaysCompleted 6, CrontabRemoved])"
  unfolding check_days [OF sixth_day_valid started_start_date strptime_start]
    ordinal_sixth_day remove_only_entry
  by simp

lemma base_world_fields:
  "script_path base_world = ''/m.py''"
  "crontab base_world = Table (cron_command ''/m.py'' @ [newline])"
  "history_file base_world = Absent"
  "now_check base_world = first_day"
  "now_quota base_world = first_day"
  by (simp_all add: base_world_def)

lemma scheduled_fields:
  "\<not> setup_cron scheduled" "\<not> remove_cron scheduled" "\<not> status scheduled"
  "force_send scheduled = None" "\<not> forced scheduled"
  by (simp_all add: scheduled_def forced_def)

lemma load_datasets_base:
  "load_datasets base_world =
     ([LoadingConfig, Found 1 1 2],
      Some ([sender], [JDict [(''body'', JStr ''hi'')]], [JStr ''r@y'', JStr ''s@y'']))"
  by (simp add: load_datasets_def base_world_def sender_def)

lemma first_run_info:
  "get_current_day_info first_day fresh_history =
     Inr ((1, 1, ''2024-01-01''),
          JDict [(''start_date'', JStr ''2024-01-01''), (''daily_sends'', JDict [])])"
  by (simp add: get_current_day_info_def fresh_history_def strftime_first_day Let_def)

lemma plan_base:
  "plan scheduled base_world fresh_history =
     Inr (Some 1, 1, ''2024-01-01'',
          JDict [(''start_date'', JStr ''2024-01-01''), (''daily_sends'', JDict [])],
          [Planning 1 1])"
  by (simp add: plan_def scheduled_fields base_world_fields first_run_info)

lemma choose_base:
  "choose_recipients base_world [JStr ''r@y'', JStr ''s@y''] 1 = ([], 1, Inr [JStr ''r@y''])"
  by (simp add: choose_recipients_def random_sample_def base_world_def Let_def)

lemma default_subject_no_nul: "CHR 0x00 \<notin> set default_subject"
  by (simp add: default_subject_def)

lemma process_base:
  "process_recipient base_world [sender] [JDict [(''body'', JStr ''hi'')]] 1 (Suc 0) (JStr ''r@y'') =
     (Inr False,
      [Processing 1 1,
       Sending (JStr ''r@y'') (JStr default_subject) (JStr ''a@x'') (JStr ''a@x''),
       RunSwaks (JStr ''a@x'') (JStr ''pw'') (JStr ''a@x'') (JStr ''r@y'')
         (JStr default_subject) (JStr ''hi''),
       SendFailed (JStr ''r@y'')])"
  by (simp add: process_recipient_def random_choice_def send_email_def sender_def base_world_def
      default_subject_no_nul)

lemma dispatch_base:
  "dispatch base_world [sender] [JDict [(''body'', JStr ''hi'')]] 1 (Suc 0) [JStr ''r@y''] =
     (None, 0,
      [Processing 1 1,
       Sending (JStr ''r@y'') (JStr default_subject) (JStr ''a@x'') (JStr ''a@x''),
       RunSwaks (JStr ''a@x'') (JStr ''pw'') (JStr ''a@x'') (JStr ''r@y'')
         (JStr default_subject) (JStr ''hi''),
       SendFailed (JStr ''r@y'')])"
  by (simp add: process_base)

lemma sum_base:
  "sum_daily_sends (JDict [(''start_date'', JStr ''2024-01-01''), (''daily_sends'', JDict [])]) = Inr 0"
  by (simp add: sum_daily_sends_def)

lemma send_campaign_base:
  "send_campaign scheduled base_world fresh_history =
     \<lparr>outcome = Returned,
      trace =
        [LoadingConfig, Found 1 1 2, Planning 1 1, Processing 1 1,
         Sending (JStr ''r@y'') (JStr default_subject) (JStr ''a@x'') (JStr ''a@x''),
         RunSwaks (JStr ''a@x'') (JStr ''pw'') (JStr ''a@x'') (JStr ''r@y'')
           (JStr default_subject) (JStr ''hi''),
         SendFailed (JStr ''r@y''), Summary (Some 1) 1 0 1,
         HistoryUpdated ''2024-01-01'', RecipientsRemaining 2],
      crontab_after = Table (cron_command ''/m.py'' @ [newline]),
      history_after = Absent,
      selected = [JStr ''r@y'']\<rparr>"
  by (simp add: send_campaign_def load_datasets_base plan_base choose_base process_base
      sum_base stop_def scheduled_fields base_world_fields)


lemma zero_fields:
  "\<not> setup_cron (scheduled\<lparr>force_send := Some 0\<rparr>)"
  "\<not> remove_cron (scheduled\<lparr>force_send := Some 0\<rparr>)"
  "\<not> status (scheduled\<lparr>force_send := Some 0\<rparr>)"
  "\<not> forced (scheduled\<lparr>force_send := Some 0\<rparr>)"
  by (simp_all add: scheduled_def forced_def)

lemma willing_world_fields:
  "script_path willing_world = ''/m.py''"
  "crontab willing_world = Table (cron_command ''/m.py'' @ [newline])"
  "history_file willing_world = Absent"
  "now_check willing_world = first_day"
  "now_quota willing_world = first_day"
  by (simp_all add: willing_world_def base_world_def)

lemma load_datasets_willing:
  "load_datasets willing_world =
     ([LoadingConfig, Found 1 1 2],
      Some ([sender], [JDict [(''body'', JStr ''hi'')]], [JStr ''r@y'', JStr ''s@y'']))"
  by (simp add: load_datasets_def willing_world_def base_world_def sender_def)

lemma plan_zero_willing:
  "plan (scheduled\<lparr>force_send := Some 0\<rparr>) willing_world fresh_history =
     Inr (Some 1, 1, ''2024-01-01'',
          JDict [(''start_date'', JStr ''2024-01-01''), (''daily_sends'', JDict [])],
          [Planning 1 1])"
  by (simp add: plan_zero_computes willing_world_fields first_run_info)

lemma choose_willing:
  "choose_recipients willing_world [JStr ''r@y'', JStr ''s@y''] 1 = ([], 1, Inr [JStr ''r@y''])"
  by (simp add: choose_recipients_def random_sample_def willing_world_def base_world_def Let_def)

lemma process_willing:
  "process_recipient willing_world [sender] [JDict [(''body'', JStr ''hi'')]] 1 (Suc 0)
     (JStr ''r@y'') =
     (Inr True,
      [Processing 1 1,
       Sending (JStr ''r@y'') (JStr default_subject) (JStr ''a@x'') (JStr ''a@x''),
       RunSwaks (JStr ''a@x'') (JStr ''pw'') (JStr ''a@x'') (JStr ''r@y'')
         (JStr default_subject) (JStr ''hi''),
       SentOk (JStr ''r@y'')])"
  by (simp add: process_recipient_def random_choice_def send_email_def sender_def
      willing_world_def base_world_def default_subject_no_nul)

lemma update_first_day:
  "update_history (JDict [(''start_date'', JStr ''2024-01-01''), (''daily_sends'', JDict [])])
     ''2024-01-01'' 1 =
     Inr (JDict [(''start_date'', JStr ''2024-01-01''),
                 (''daily_sends'', JDict [(''2024-01-01'', JInt 1)])],
          Document (JDict [(''start_date'', JStr ''2024-01-01''),
                           (''daily_sends'', JDict [(''2024-01-01'', JInt 1)])]))"
  by (simp add: update_history_def save_history_def save_history_steps_def)

lemma sum_first_day:
  "sum_daily_sends (JDict [(''start_date'', JStr ''2024-01-01''),
                           (''daily_sends'', JDict [(''2024-01-01'', JInt 1)])]) = Inr 1"
  by (simp add: sum_daily_sends_def)

lemma send_campaign_zero_willing:
  "send_campaign (scheduled\<lparr>force_send := Some 0\<rparr>) willing_world fresh_history =
     \<lparr>outcome = Returned,
      trace =
        [LoadingConfig, Found 1 1 2, Planning 1 1, Processing 1 1,
         Sending (JStr ''r@y'') (JStr default_subject) (JStr ''a@x'') (JStr ''a@x''),
         RunSwaks (JStr ''a@x'') (JStr ''pw'') (JStr ''a@x'') (JStr ''r@y'')
           (JStr default_subject) (JStr ''hi''),
         SentOk (JStr ''r@y''), Summary (Some 1) 1 1 0,
         HistoryUpdated ''2024-01-01'', RecipientsRemaining 1],
      crontab_after = Table (cron_command ''/m.py'' @ [newline]),
      history_after =
        Document (JDict [(''start_date'', JStr ''2024-01-01''),
                         (''daily_sends'', JDict [(''2024-01-01'', JInt 1)])]),
      selected = [JStr ''r@y'']\<rparr>"
  by (simp add: send_campaign_def load_datasets_willing plan_zero_willing choose_willing
      process_willing update_first_day sum_first_day stop_def zero_fields willing_world_fields)

lemma main_zero_willing:
  "main (scheduled\<lparr>force_send := Some 0\<rparr>) willing_world =
     \<lparr>outcome = Returned,
      trace =
        [LoadingConfig, Found 1 1 2, Planning 1 1, Processing 1 1,
         Sending (JStr ''r@y'') (JStr default_subject) (JStr ''a@x'') (JStr ''a@x''),
         RunSwaks (JStr ''a@x'') (JStr ''pw'') (JStr ''a@x'') (JStr ''r@y'')
           (JStr default_subject) (JStr ''hi''),
         SentOk (JStr ''r@y''), Summary (Some 1) 1 1 0,
         HistoryUpdated ''2024-01-01'', RecipientsRemaining 1],
      crontab_after = Table (cron_command ''/m.py'' @ [newline]),
      history_after =
        Document (JDict [(''start_date'', JStr ''2024-01-01''),
                         (''daily_sends'', JDict [(''2024-01-01'', JInt 1)])]),
      selected = [JStr ''r@y'']\<rparr>"
  by (simp add: main_def zero_fields willing_world_fields check_fresh send_campaign_zero_willing)

section \<open>The claims at the scenarios\<close>

text \<open>
  The third day of the campaign, two emails already sent: day number 3, one email left.
\<close>

theorem get_current_day_info_spec_witness:
  "get_current_day_info third_day (JDict started_history) =
     Inr ((3, 1, ''2024-01-03''), JDict started_history)"
proof -
  have a: "map_of started_history ''daily_sends'' = Some (JDict [(''2024-01-03'', JInt 2)])"
    by (simp add: started_history_def)
  have b: "map_of [(''2024-01-03'', JInt 2)] (strftime third_day) = None \<and> (2::int) = 0 \<or>
           map_of [(''2024-01-03'', JInt 2)] (strftime third_day) = Some (JInt 2)"
    by (simp add: strftime_third_day)
  have c: "map_of started_history ''start_date'' = Some (JStr ''2024-01-01'')"
    by (simp add: started_history_def)
  from get_current_day_info_spec [OF third_day_valid a b, of "''2024-01-01''" "midnight 2024 1 1" 2]
    c strptime_start ordinal_third_day
  have "get_current_day_info third_day (JDict started_history) =
          Inr ((int 2 + 1, max 0 (int 2 + 1 - 2), strftime third_day), JDict started_history)"
    by blast
  then show ?thesis by (simp add: strftime_third_day)
qed

text \<open>A first run, asked twice on the first day.\<close>

theorem get_current_day_info_idempotent_witness:
  "get_current_day_info first_day fresh_history =
     Inr ((1, 1, ''2024-01-01''),
          JDict [(''start_date'', JStr ''2024-01-01''), (''daily_sends'', JDict [])])
   \<and> get_current_day_info first_day
        (JDict [(''start_date'', JStr ''2024-01-01''), (''daily_sends'', JDict [])]) =
     Inr ((1, 1, ''2024-01-01''),
          JDict [(''start_date'', JStr ''2024-01-01''), (''daily_sends'', JDict [])])"
  using get_current_day_info_idempotent [OF first_day_valid first_run_info] first_run_info
  by blast

text \<open>
  Claim C7 fails as stated: a record that decodes but is not a campaign state (here the
  empty object) is returned as it is, not replaced by the empty state, and the run ends
  with an exception.
\<close>

theorem malformed_record_is_fatal:
  "load_history (Document (JDict [])) = JDict [] \<and>
   load_history (Document (JDict [])) \<noteq> fresh_history \<and>
   outcome (main scheduled (base_world\<lparr>history_file := Document (JDict [])\<rparr>)) =
     Raised KeyError"
  by (simp add: main_def scheduled_fields check_and_cleanup_crontab_def stop_def
      fresh_history_def)

text \<open>A file that cannot be decoded, on the first day.\<close>

theorem load_history_falls_back_witness:
  "load_history Undecodable = JDict [(''start_date'', JNull), (''daily_sends'', JDict [])] \<and>
   check_and_cleanup_crontab first_day ''/m.py'' (load_history Undecodable) NoTable =
     Inr (NoTable, []) \<and>
   get_current_day_info first_day (load_history Undecodable) =
     Inr ((1, 1, ''2024-01-01''),
          JDict [(''start_date'', JStr ''2024-01-01''), (''daily_sends'', JDict [])])"
  using load_history_falls_back [of Undecodable first_day "''/m.py''" NoTable first_day]
  by (simp add: strftime_first_day)

text \<open>
  Claim C9 fails as stated: \<open>save_history\<close> writes in place. The first content the file
  takes is the truncated, empty one, which is neither the record before nor the record
  saved, and which a reader loads as the empty state.
\<close>

theorem save_history_not_atomic:
  "hd (save_history_steps (JDict started_history)) = Undecodable \<and>
   load_history (hd (save_history_steps (JDict started_history))) = fresh_history \<and>
   fresh_history \<noteq> JDict started_history"
  by (simp add: save_history_steps_def fresh_history_def started_history_def)

text \<open>
  The first instant of the sixth day removes the entry; the last instant of the fifth
  day does not.
\<close>

theorem check_and_cleanup_crontab_after_five_days_witness:
  "check_and_cleanup_crontab sixth_day ''/m.py'' (JDict started_history)
     (Table (cron_command ''/m.py'' @ [newline])) =
     Inr (NoTable, [FiveDaysCompleted 6, CrontabRemoved])
   \<and> check_and_cleanup_crontab fifth_day ''/m.py'' (JDict started_history)
     (Table (cron_command ''/m.py'' @ [newline])) =
     Inr (Table (cron_command ''/m.py'' @ [newline]), [])"
proof -
  note six = check_and_cleanup_crontab_after_five_days
    [OF sixth_day_valid started_start_date strptime_start,
     of "''/m.py''" "Table (cron_command ''/m.py'' @ [newline])", THEN conjunct1]
  note five = check_and_cleanup_crontab_after_five_days
    [OF fifth_day_valid started_start_date strptime_start,
     of "''/m.py''" "Table (cron_command ''/m.py'' @ [newline])", THEN conjunct1]
  show ?thesis
    unfolding six five ordinal_sixth_day ordinal_fifth_day remove_only_entry by simp
qed

text \<open>
  Claim C3 fails as stated: a forced run on the sixth day of the campaign removes the
  crontab entry.
\<close>

theorem forced_run_removes_crontab:
  "crontab_after
     (main (scheduled\<lparr>force_send := Some 1\<rparr>)
        (base_world\<lparr>history_file := Document (JDict started_history), now_check := sixth_day\<rparr>)) =
     NoTable
   \<and> crontab (base_world\<lparr>history_file := Document (JDict started_history),
                          now_check := sixth_day\<rparr>) =
     Table (cron_command ''/m.py'' @ [newline])"
proof -
  have "crontab_after
     (main (scheduled\<lparr>force_send := Some 1\<rparr>)
        (base_world\<lparr>history_file := Document (JDict started_history), now_check := sixth_day\<rparr>)) =
     NoTable"
    by (subst main_crontab) (simp_all add: scheduled_fields base_world_fields check_sixth_day)
  then show ?thesis by (simp add: base_world_fields)
qed

text \<open>A forced run on the fifth day: the entry stays, as in the scheduled run.\<close>

theorem crontab_check_on_every_run_witness:
  "crontab_after
     (main (scheduled\<lparr>force_send := Some 1\<rparr>)
        (base_world\<lparr>history_file := Document (JDict started_history), now_check := fifth_day\<rparr>)) =
     Table (cron_command ''/m.py'' @ [newline])
   \<and> crontab_after
     (main (scheduled\<lparr>force_send := Some 1\<rparr>)
        (base_world\<lparr>history_file := Document (JDict started_history), now_check := fifth_day\<rparr>)) =
     crontab_after
     (main scheduled
        (base_world\<lparr>history_file := Document (JDict started_history), now_check := fifth_day\<rparr>))"
proof -
  have five: "check_and_cleanup_crontab fifth_day ''/m.py'' (JDict started_history)
       (Table (cron_command ''/m.py'' @ [newline])) =
       Inr (Table (cron_command ''/m.py'' @ [newline]), [])"
    unfolding check_days [OF fifth_day_valid started_start_date strptime_start]
      ordinal_fifth_day by simp
  note th = crontab_check_on_every_run
    [where a = scheduled and f = "Some 1"
       and w = "base_world\<lparr>history_file := Document (JDict started_history),
                               now_check := fifth_day\<rparr>"]
  from th [THEN conjunct2] have b: "crontab_after
     (main (scheduled\<lparr>force_send := Some 1\<rparr>)
        (base_world\<lparr>history_file := Document (JDict started_history), now_check := fifth_day\<rparr>)) =
     crontab_after
     (main scheduled
        (base_world\<lparr>history_file := Document (JDict started_history), now_check := fifth_day\<rparr>))" .
  from th [THEN conjunct1] have "crontab_after
     (main scheduled
        (base_world\<lparr>history_file := Document (JDict started_history), now_check := fifth_day\<rparr>)) =
     Table (cron_command ''/m.py'' @ [newline])"
    by (simp add: scheduled_fields base_world_fields five)
  with b show ?thesis by simp
qed


text \<open>
  Claim C6 fails as stated: a message whose \<open>subject\<close> is the empty string is sent with
  the empty subject.
\<close>

theorem empty_subject_is_sent:
  "process_recipient base_world [sender] [JDict [(''subject'', JStr []), (''body'', JStr ''hi'')]]
     1 1 (JStr ''r@y'') =
     (Inr False,
      [Processing 1 1,
       Sending (JStr ''r@y'') (JStr []) (JStr ''a@x'') (JStr ''a@x''),
       RunSwaks (JStr ''a@x'') (JStr ''pw'') (JStr ''a@x'') (JStr ''r@y'') (JStr []) (JStr ''hi''),
       SendFailed (JStr ''r@y'')])"
  by (simp add: process_recipient_def random_choice_def send_email_def sender_def base_world_def)

text \<open>
  A sender without a password is skipped; the sender of the scenario is sent from, with
  the default subject.
\<close>

theorem process_recipient_checks_witness:
  "process_recipient base_world [JDict [(''email'', JStr ''a@x'')]] [JDict [(''body'', JStr ''hi'')]]
     1 1 (JStr ''r@y'') = (Inr False, [Processing 1 1, InvalidCredentials])
   \<and> RunSwaks (JStr ''a@x'') (JStr ''pw'') (JStr ''a@x'') (JStr ''r@y'')
        (JStr default_subject) (JStr ''hi'') \<in>
      set (snd (process_recipient base_world [sender] [JDict [(''body'', JStr ''hi'')]]
                  1 1 (JStr ''r@y'')))
   \<and> truthy (JStr ''a@x'') \<and> truthy (JStr ''pw'')"
proof -
  have m: "random_choice (message_draws base_world 1) [JDict [(''body'', JStr ''hi'')]] =
             Inr (JDict [(''body'', JStr ''hi'')])"
    by (simp add: random_choice_def)
  have r: "recipient_address (JStr ''r@y'') = Some (JStr ''r@y'')" by simp
  have c1: "random_choice (cred_draws base_world 1) [JDict [(''email'', JStr ''a@x'')]] =
             Inr (JDict [(''email'', JStr ''a@x'')])"
    by (simp add: random_choice_def)
  have c2: "random_choice (cred_draws base_world 1) [sender] =
             Inr (JDict [(''email'', JStr ''a@x''), (''password'', JStr ''pw'')])"
    by (simp add: random_choice_def sender_def)
  from process_recipient_checks [OF c1 m r, where n = 1, THEN conjunct1]
  have skip: "process_recipient base_world [JDict [(''email'', JStr ''a@x'')]]
      [JDict [(''body'', JStr ''hi'')]] 1 1 (JStr ''r@y'') =
      (Inr False, [Processing 1 1, InvalidCredentials])"
    by simp
  have run: "RunSwaks (JStr ''a@x'') (JStr ''pw'') (JStr ''a@x'') (JStr ''r@y'')
        (JStr default_subject) (JStr ''hi'') \<in>
      set (snd (process_recipient base_world [sender] [JDict [(''body'', JStr ''hi'')]]
                  1 1 (JStr ''r@y'')))"
    using process_base by simp
  from process_recipient_checks [OF c2 m r, where n = 1 and se = "JStr ''a@x''"
      and sp = "JStr ''pw''" and dn = "JStr ''a@x''" and rc = "JStr ''r@y''"
      and sj = "JStr default_subject" and bd = "JStr ''hi''", THEN conjunct2, THEN conjunct1] run
  have "truthy (JStr ''a@x'') \<and> truthy (JStr ''pw'')" by blast
  with skip run show ?thesis by blast
qed

text \<open>
  Claim C2, at an input where the code breaks it. A scheduled first run (no
  \<^verbatim>\<open>history.json\<close>) whose only send fails sets \<open>start_date\<close> in the history it
  holds, prints that the history was updated, and ends without writing the file: the
  start of the campaign is not recorded.
\<close>

theorem start_date_lost_without_success:
  "main scheduled base_world =
     \<lparr>outcome = Returned,
      trace =
        [LoadingConfig, Found 1 1 2, Planning 1 1, Processing 1 1,
         Sending (JStr ''r@y'') (JStr default_subject) (JStr ''a@x'') (JStr ''a@x''),
         RunSwaks (JStr ''a@x'') (JStr ''pw'') (JStr ''a@x'') (JStr ''r@y'')
           (JStr default_subject) (JStr ''hi''),
         SendFailed (JStr ''r@y''), Summary (Some 1) 1 0 1,
         HistoryUpdated ''2024-01-01'', RecipientsRemaining 2],
      crontab_after = Table (cron_command ''/m.py'' @ [newline]),
      history_after = Absent,
      selected = [JStr ''r@y'']\<rparr>"
  by (simp add: main_def scheduled_fields base_world_fields check_fresh send_campaign_base)

text \<open>
  Claim C10. A run with \<^verbatim>\<open>--force-send 0\<close> does not take the forced path: the count
  0 is false, so the run is the run without the option, and the count of the day comes
  from \<open>get_current_day_info\<close> on the loaded history. On a first run whose send
  succeeds, with the option at 0, the history is initialised, one email of day 1 is
  sent, and the history is saved with the start date and the count.
\<close>

theorem force_send_zero_is_scheduled:
  "main (a\<lparr>force_send := Some 0\<rparr>) w = main (a\<lparr>force_send := None\<rparr>) w
   \<and> \<not> forced (a\<lparr>force_send := Some 0\<rparr>)
   \<and> plan (a\<lparr>force_send := Some 0\<rparr>) w history =
       (case get_current_day_info (now_quota w) history of
          Inl e \<Rightarrow> Inl e
        | Inr ((day_number, emails_to_send, today), history') \<Rightarrow>
            Inr (Some day_number, emails_to_send, today, history',
                 [Planning day_number emails_to_send]))
   \<and> main (scheduled\<lparr>force_send := Some 0\<rparr>) willing_world =
       \<lparr>outcome = Returned,
        trace =
          [LoadingConfig, Found 1 1 2, Planning 1 1, Processing 1 1,
           Sending (JStr ''r@y'') (JStr default_subject) (JStr ''a@x'') (JStr ''a@x''),
           RunSwaks (JStr ''a@x'') (JStr ''pw'') (JStr ''a@x'') (JStr ''r@y'')
             (JStr default_subject) (JStr ''hi''),
           SentOk (JStr ''r@y''), Summary (Some 1) 1 1 0,
           HistoryUpdated ''2024-01-01'', RecipientsRemaining 1],
        crontab_after = Table (cron_command ''/m.py'' @ [newline]),
        history_after =
          Document (JDict [(''start_date'', JStr ''2024-01-01''),
                           (''daily_sends'', JDict [(''2024-01-01'', JInt 1)])]),
        selected = [JStr ''r@y'']\<rparr>"
proof -
  have "\<not> forced (a\<lparr>force_send := Some 0\<rparr>)" by (simp add: forced_def)
  with main_force_send_zero [of a w] plan_zero_computes [of a w history] main_zero_willing
  show ?thesis by (intro conjI)
qed

end
